theory Spec2Isabelle
  imports Complex_Main
begin

section \<open>JavaScript strings and numbers\<close>

text \<open>
  A JavaScript string is a sequence of UTF-16 code units; a code unit is modelled by its
  number. The patterns of \<^verbatim>\<open>src/lib/rekognition.js\<close> contain the non-ASCII characters
  U+03A9 (937), U+00B5 (181) and U+03BC (956), so the 8-bit \<^typ>\<open>char\<close> is too small.
  \<open>str\<close> embeds an ASCII literal.

  A confidence is a JavaScript number. The input contract (a number between 0 and 100)
  excludes NaN and the infinities, and every finite double is a rational, so a confidence
  is a \<^typ>\<open>rat\<close>. On finite doubles the sign of the rounded difference \<open>b - a\<close> is
  the sign of the exact difference (two distinct doubles never subtract to zero), so
  comparisons and the sort comparator are exact in this model.
\<close>

type_synonym jsstring = "nat list"

definition str :: "string \<Rightarrow> jsstring" where
  "str s = map of_char s"

text \<open>
  \<^verbatim>\<open>String.prototype.includes\<close> (\<open>includes_str\<close>): the argument occurs as a
  contiguous substring.
\<close>

fun startsWith :: "jsstring \<Rightarrow> jsstring \<Rightarrow> bool" where
  "startsWith s [] = True"
| "startsWith [] (k # ks) = False"
| "startsWith (c # s) (k # ks) = (c = k \<and> startsWith s ks)"

fun includes_str :: "jsstring \<Rightarrow> jsstring \<Rightarrow> bool" where
  "includes_str [] k = (k = [])"
| "includes_str (c # s) k = (startsWith (c # s) k \<or> includes_str s k)"

text \<open>
  \<^verbatim>\<open>String.prototype.toLowerCase\<close>. The letters A to Z go to a to z. Two code units
  outside ASCII have a lower case that contains an ASCII letter: U+212A (KELVIN SIGN) goes
  to k and U+0130 goes to i followed by U+0307. Every other code unit outside ASCII goes
  to code units outside ASCII; it is kept as it is here, which no search for an ASCII
  keyword (the only use of the result in this program) can tell apart.
\<close>

definition lower_cu :: "nat \<Rightarrow> jsstring" where
  "lower_cu c =
     (if 65 \<le> c \<and> c \<le> 90 then [c + 32]
      else if c = 8490 then [107]
      else if c = 304 then [105, 775]
      else [c])"

definition toLowerCase :: "jsstring \<Rightarrow> jsstring" where
  "toLowerCase s = concat (map lower_cu s)"

text \<open>
  \<^verbatim>\<open>Array.prototype.sort(cmp)\<close> is stable, and for a consistent comparator its
  result is the one stable ordering: insertion from the right, where an element stays in
  front of the later elements that it does not have to follow (\<open>cmp x y \<le> 0\<close>).
\<close>

fun insert_cmp :: "('a \<Rightarrow> 'a \<Rightarrow> rat) \<Rightarrow> 'a \<Rightarrow> 'a list \<Rightarrow> 'a list" where
  "insert_cmp cmp x [] = [x]"
| "insert_cmp cmp x (y # ys) = (if cmp x y \<le> 0 then x # y # ys else y # insert_cmp cmp x ys)"

definition array_sort :: "('a \<Rightarrow> 'a \<Rightarrow> rat) \<Rightarrow> 'a list \<Rightarrow> 'a list" where
  "array_sort cmp xs = foldr (insert_cmp cmp) xs []"

section \<open>Data model\<close>

text \<open>The inputs: a label and a text detection of the vision service.\<close>

record Label =
  Name :: jsstring
  Confidence :: rat

record TextDetection =
  DetectedText :: jsstring
  Type :: jsstring
  DetConfidence :: rat

text \<open>
  The objects that the analyzer builds. Field names that JavaScript repeats across
  objects carry a prefix: \<open>mtype\<close>, \<open>mconfidence\<close> are \<^verbatim>\<open>type\<close> and \<^verbatim>\<open>confidence\<close>
  of a match; \<open>lconfidence\<close> and \<open>tconfidence\<close> are \<^verbatim>\<open>confidence\<close> of an entry of
  \<^verbatim>\<open>detectedLabels\<close> and \<^verbatim>\<open>detectedText\<close>; \<open>capEstimatedValue\<close> is
  \<^verbatim>\<open>estimatedValue\<close> of the capacitor analysis; \<open>ctype\<close> and \<open>confidence\<close> are
  \<^verbatim>\<open>type\<close> and \<^verbatim>\<open>confidence\<close> of the result; \<open>text'\<close> and \<open>note'\<close> are
  \<^verbatim>\<open>text\<close> and \<^verbatim>\<open>note\<close>. A field that may be \<^verbatim>\<open>null\<close> or
  absent is an option.
\<close>

record TypeMatch =
  mtype :: jsstring
  mconfidence :: rat
  matchedLabel :: jsstring

record LabelEntry =
  name :: jsstring
  lconfidence :: rat

record TextEntry =
  text' :: jsstring
  tconfidence :: rat

record ResistorAnalysis =
  hasColorBands :: bool
  detectedColors :: "jsstring list"
  estimatedValue :: "jsstring option"
  note' :: "jsstring option"

record CapacitorAnalysis =
  capEstimatedValue :: "jsstring option"
  voltage :: "jsstring option"

record ICAnalysis =
  partNumbers :: "jsstring list"
  manufacturers :: "jsstring list"

record Analysis =
  resistor :: "ResistorAnalysis option"
  capacitor :: "CapacitorAnalysis option"
  ic :: "ICAnalysis option"

record ComponentData =
  confidence :: rat
  ctype :: jsstring
  possibleTypes :: "TypeMatch list"
  detectedLabels :: "LabelEntry list"
  detectedText :: "TextEntry list"
  analysis :: Analysis

section \<open>The type classifier\<close>

text \<open>\<^verbatim>\<open>typeKeywords\<close>; \<^verbatim>\<open>Object.entries\<close> lists its keys in the order written.\<close>

definition typeKeywords :: "(jsstring \<times> jsstring list) list" where
  "typeKeywords =
    [(str ''resistor'',
        [str ''resistor'', str ''resistance'', str ''band'', str ''cylinder'',
         str ''electronic component'']),
     (str ''capacitor'', [str ''capacitor'', str ''electrolytic'', str ''ceramic'']),
     (str ''diode'', [str ''diode'', str ''led'', str ''semiconductor'']),
     (str ''transistor'', [str ''transistor'', str ''mosfet'', str ''bjt'']),
     (str ''integrated_circuit'',
        [str ''chip'', str ''ic'', str ''microchip'', str ''processor'', str ''circuit board'']),
     (str ''connector'', [str ''connector'', str ''pin'', str ''header'', str ''socket'']),
     (str ''inductor'', [str ''inductor'', str ''coil''])]"

text \<open>The inner loop over the labels, for one type: push at the first hit and break.\<close>

fun scanLabels :: "jsstring \<Rightarrow> jsstring list \<Rightarrow> Label list \<Rightarrow> TypeMatch list \<Rightarrow> TypeMatch list" where
  "scanLabels ty keywords [] matches = matches"
| "scanLabels ty keywords (label # rest) matches =
     (let labelLower = toLowerCase (Name label) in
      if list_ex (\<lambda>keyword. includes_str labelLower keyword) keywords
      then matches @ [\<lparr>mtype = ty, mconfidence = Confidence label, matchedLabel = Name label\<rparr>]
      else scanLabels ty keywords rest matches)"

text \<open>The outer loop over the entries of the keyword table.\<close>

fun scanTypes :: "(jsstring \<times> jsstring list) list \<Rightarrow> Label list \<Rightarrow> TypeMatch list \<Rightarrow> TypeMatch list" where
  "scanTypes [] labels matches = matches"
| "scanTypes ((ty, keywords) # entries) labels matches =
     scanTypes entries labels (scanLabels ty keywords labels matches)"

definition identifyComponentType :: "Label list \<Rightarrow> TypeMatch list" where
  "identifyComponentType labels =
     array_sort (\<lambda>a b. mconfidence b - mconfidence a) (scanTypes typeKeywords labels [])"

subsection \<open>The classifier as the specification words it\<close>

text \<open>
  The reference definition of the specification: for each type of the table, the first
  label (in input order) whose lower-cased name contains one of the type's keywords gives
  the type's one match; the matches are then sorted by descending confidence with a
  stable sort.
\<close>

definition matchesKeywords :: "jsstring list \<Rightarrow> Label \<Rightarrow> bool" where
  "matchesKeywords keywords l = list_ex (includes_str (toLowerCase (Name l))) keywords"

definition typeMatchOf :: "Label list \<Rightarrow> jsstring \<times> jsstring list \<Rightarrow> TypeMatch list" where
  "typeMatchOf labels entry =
     (case List.find (matchesKeywords (snd entry)) labels of
        None \<Rightarrow> []
      | Some l \<Rightarrow> [\<lparr>mtype = fst entry, mconfidence = Confidence l, matchedLabel = Name l\<rparr>])"

definition identifyComponentType_spec :: "Label list \<Rightarrow> TypeMatch list" where
  "identifyComponentType_spec labels =
     sort_key (\<lambda>m. - mconfidence m) (concat (map (typeMatchOf labels) typeKeywords))"

section \<open>Regular expressions\<close>

text \<open>
  A pattern is matched as the ECMAScript backtracking matcher does it: a piece of a
  pattern maps the remaining input to the list of its ways to match a prefix of it, each
  a pair of the text matched and the rest, in the order of preference (a greedy quantifier
  offers the longest text first). A sequence tries the ways of its pieces in that order,
  and the first way that reaches the end of the pattern is the match.
\<close>

type_synonym rx = "jsstring \<Rightarrow> (jsstring \<times> jsstring) list"

text \<open>\<^verbatim>\<open>\d\<close>: the ten ASCII digits.\<close>

definition is_digit :: "nat \<Rightarrow> bool" where
  "is_digit c = (48 \<le> c \<and> c \<le> 57)"

text \<open>
  \<^verbatim>\<open>\s\<close>, and the characters that \<^verbatim>\<open>trim\<close> strips: the white space and line
  terminator code units of ECMAScript.
\<close>

definition is_space :: "nat \<Rightarrow> bool" where
  "is_space c =
     (c \<in> set [9, 10, 11, 12, 13, 32, 160, 5760, 8232, 8233, 8239, 8287, 12288, 65279]
      \<or> (8192 \<le> c \<and> c \<le> 8202))"

text \<open>
  The flag \<^verbatim>\<open>i\<close> compares canonical forms, and the canonical form of a code unit is
  its upper case, except that a code unit outside ASCII never takes an ASCII canonical
  form. So an ASCII letter of a pattern matches its two cases and nothing else (\<open>ci\<close>).
  Outside ASCII the patterns hold U+03A9, whose canonical form it shares with U+03C9
  only, and U+00B5 and U+03BC, which both have the canonical form U+039C.
\<close>

definition upper_ascii :: "nat \<Rightarrow> nat" where
  "upper_ascii c = (if 97 \<le> c \<and> c \<le> 122 then c - 32 else c)"

definition ci :: "nat \<Rightarrow> nat \<Rightarrow> bool" where
  "ci p c = (upper_ascii c = upper_ascii p)"

text \<open>\<^verbatim>\<open>[A-Z0-9]\<close> under the flag \<^verbatim>\<open>i\<close>.\<close>

definition is_alnum :: "nat \<Rightarrow> bool" where
  "is_alnum c = ((65 \<le> upper_ascii c \<and> upper_ascii c \<le> 90) \<or> is_digit c)"

text \<open>\<^verbatim>\<open>[kKmM]\<close> under the flag \<^verbatim>\<open>i\<close>.\<close>

definition is_multiplier :: "nat \<Rightarrow> bool" where
  "is_multiplier c = (ci 107 c \<or> ci 75 c \<or> ci 109 c \<or> ci 77 c)"

text \<open>\<^verbatim>\<open>[\<mu>u\<mu>pnm]\<close> (U+00B5, u, U+03BC, p, n, m) under the flag \<^verbatim>\<open>i\<close>.\<close>

definition is_cap_unit :: "nat \<Rightarrow> bool" where
  "is_cap_unit c =
     (c = 181 \<or> c = 956 \<or> c = 924 \<or> ci 117 c \<or> ci 112 c \<or> ci 110 c \<or> ci 109 c)"

text \<open>U+03A9 under the flag \<^verbatim>\<open>i\<close>.\<close>

definition is_omega :: "nat \<Rightarrow> bool" where
  "is_omega c = (c = 937 \<or> c = 969)"

text \<open>\<^verbatim>\<open>C*\<close> for a character class \<open>C\<close>, greedy.\<close>

fun rx_star :: "(nat \<Rightarrow> bool) \<Rightarrow> rx" where
  "rx_star P [] = [([], [])]"
| "rx_star P (c # s) =
     (if P c then map (\<lambda>(m, r). (c # m, r)) (rx_star P s) else []) @ [([], c # s)]"

text \<open>\<^verbatim>\<open>C+\<close>, greedy.\<close>

fun rx_plus :: "(nat \<Rightarrow> bool) \<Rightarrow> rx" where
  "rx_plus P [] = []"
| "rx_plus P (c # s) = (if P c then map (\<lambda>(m, r). (c # m, r)) (rx_star P s) else [])"

text \<open>\<^verbatim>\<open>C?\<close>, greedy.\<close>

fun rx_opt :: "(nat \<Rightarrow> bool) \<Rightarrow> rx" where
  "rx_opt P [] = [([], [])]"
| "rx_opt P (c # s) = (if P c then [([c], s)] else []) @ [([], c # s)]"

text \<open>A sequence of single characters, each given by its class (a literal).\<close>

fun rx_chars :: "(nat \<Rightarrow> bool) list \<Rightarrow> rx" where
  "rx_chars [] s = [([], s)]"
| "rx_chars (P # Ps) [] = []"
| "rx_chars (P # Ps) (c # s) =
     (if P c then map (\<lambda>(m, r). (c # m, r)) (rx_chars Ps s) else [])"

text \<open>\<^verbatim>\<open>C{0,n}\<close> and \<^verbatim>\<open>C{lo,hi}\<close>, greedy.\<close>

fun rx_upto :: "(nat \<Rightarrow> bool) \<Rightarrow> nat \<Rightarrow> rx" where
  "rx_upto P 0 s = [([], s)]"
| "rx_upto P (Suc n) [] = [([], [])]"
| "rx_upto P (Suc n) (c # s) =
     (if P c then map (\<lambda>(m, r). (c # m, r)) (rx_upto P n s) else []) @ [([], c # s)]"

definition rx_rep :: "(nat \<Rightarrow> bool) \<Rightarrow> nat \<Rightarrow> nat \<Rightarrow> rx" where
  "rx_rep P lo hi s = filter (\<lambda>(m, r). lo \<le> length m) (rx_upto P hi s)"

text \<open>
  \<^verbatim>\<open>String.prototype.match\<close> with a pattern without the flag \<^verbatim>\<open>g\<close>: the start
  positions are tried from the left, and at the first position where the pattern can
  match, its preferred match there is the result. The argument \<open>m\<close> gives the matches of
  the pattern at the start of its input, as their captured groups; \<^verbatim>\<open>null\<close> is
  \<open>None\<close>. (None of the patterns below looks behind its start position.)
\<close>

fun rx_exec :: "(jsstring \<Rightarrow> 'a list) \<Rightarrow> jsstring \<Rightarrow> 'a option" where
  "rx_exec m [] = (case m [] of [] \<Rightarrow> None | g # _ \<Rightarrow> Some g)"
| "rx_exec m (c # s) = (case m (c # s) of [] \<Rightarrow> rx_exec m s | g # _ \<Rightarrow> Some g)"

text \<open>
  \<^verbatim>\<open>/(\d+\.?\d*)\s*([kKmM]?)(\<Omega>|ohm|R)/i\<close>, with its groups 1, 2 and 3.
\<close>

definition resistancePattern :: "jsstring \<Rightarrow> (jsstring \<times> jsstring \<times> jsstring) list" where
  "resistancePattern s =
     [(d1 @ dot @ d2, mult, unit).
        (d1, r1) \<leftarrow> rx_plus is_digit s,
        (dot, r2) \<leftarrow> rx_opt (\<lambda>c. c = 46) r1,
        (d2, r3) \<leftarrow> rx_star is_digit r2,
        (ws, r4) \<leftarrow> rx_star is_space r3,
        (mult, r5) \<leftarrow> rx_opt is_multiplier r4,
        (unit, r6) \<leftarrow> rx_chars [is_omega] r5 @ rx_chars [ci 111, ci 104, ci 109] r5
                        @ rx_chars [ci 82] r5]"

text \<open>\<^verbatim>\<open>/(\d+\.?\d*)\s*([\<mu>u\<mu>pnm]?F)/i\<close>, with its groups 1 and 2.\<close>

definition capacitancePattern :: "jsstring \<Rightarrow> (jsstring \<times> jsstring) list" where
  "capacitancePattern s =
     [(d1 @ dot @ d2, u @ f).
        (d1, r1) \<leftarrow> rx_plus is_digit s,
        (dot, r2) \<leftarrow> rx_opt (\<lambda>c. c = 46) r1,
        (d2, r3) \<leftarrow> rx_star is_digit r2,
        (ws, r4) \<leftarrow> rx_star is_space r3,
        (u, r5) \<leftarrow> rx_opt is_cap_unit r4,
        (f, r6) \<leftarrow> rx_chars [ci 70] r5]"

text \<open>\<^verbatim>\<open>/(\d+)\s*V/i\<close>, with its group 1.\<close>

definition voltagePattern :: "jsstring \<Rightarrow> jsstring list" where
  "voltagePattern s =
     [d.
        (d, r1) \<leftarrow> rx_plus is_digit s,
        (ws, r2) \<leftarrow> rx_star is_space r1,
        (v, r3) \<leftarrow> rx_chars [ci 86] r2]"

text \<open>
  \<^verbatim>\<open>/^[A-Z0-9]{4,12}$/i.test(s)\<close>: without the flag \<^verbatim>\<open>m\<close> the pattern can only match
  at the start of \<open>s\<close>, and has to end at its end.
\<close>

definition partNumberPattern_test :: "jsstring \<Rightarrow> bool" where
  "partNumberPattern_test s = list_ex (\<lambda>(m, r). r = []) (rx_rep is_alnum 4 12 s)"

section \<open>The attribute extractors\<close>

text \<open>
  \<^verbatim>\<open>textDetections.filter(t => t.Type === 'LINE').map(t => t.DetectedText)\<close>, the first
  step of each extractor.
\<close>

definition lineTexts :: "TextDetection list \<Rightarrow> jsstring list" where
  "lineTexts textDetections =
     map DetectedText (filter (\<lambda>t. Type t = str ''LINE'') textDetections)"

subsection \<open>Resistor\<close>

text \<open>\<^verbatim>\<open>ResistorColorCodes\<close> of \<^verbatim>\<open>src/lib/constants.js\<close>, in the order of its keys.\<close>

definition ResistorColorCodes :: "(jsstring \<times> nat) list" where
  "ResistorColorCodes =
     [(str ''BLACK'', 0), (str ''BROWN'', 1), (str ''RED'', 2), (str ''ORANGE'', 3),
      (str ''YELLOW'', 4), (str ''GREEN'', 5), (str ''BLUE'', 6), (str ''VIOLET'', 7),
      (str ''GREY'', 8), (str ''WHITE'', 9)]"

definition isColorLabel :: "Label \<Rightarrow> bool" where
  "isColorLabel l =
     list_ex (\<lambda>color. includes_str (toLowerCase (Name l)) (toLowerCase color))
       (map fst ResistorColorCodes)"

text \<open>The loop over the text lines: the first match sets the value and breaks.\<close>

fun resistorLoop :: "jsstring list \<Rightarrow> ResistorAnalysis \<Rightarrow> ResistorAnalysis" where
  "resistorLoop [] a = a"
| "resistorLoop (t # ts) a =
     (case rx_exec resistancePattern t of
        Some (g1, g2, g3) \<Rightarrow> a\<lparr>estimatedValue := Some (g1 @ g2 @ [937])\<rparr>
      | None \<Rightarrow> resistorLoop ts a)"

definition analyzeResistor :: "Label list \<Rightarrow> TextDetection list \<Rightarrow> ResistorAnalysis" where
  "analyzeResistor labels textDetections =
     (let a0 = \<lparr>hasColorBands = False, detectedColors = [], estimatedValue = None,
                note' = None\<rparr>;
          colorLabels = filter isColorLabel labels;
          a1 = (if 2 \<le> length colorLabels
                then a0\<lparr>hasColorBands := True,
                        detectedColors := map Name colorLabels,
                        note' := Some (str ''Resistor identified with visible color bands'')\<rparr>
                else a0)
      in resistorLoop (lineTexts textDetections) a1)"

subsection \<open>Capacitor\<close>

text \<open>The loop over the text lines: both patterns are tried on every line, no break.\<close>

fun capacitorLoop :: "jsstring list \<Rightarrow> CapacitorAnalysis \<Rightarrow> CapacitorAnalysis" where
  "capacitorLoop [] a = a"
| "capacitorLoop (t # ts) a =
     (let a1 = (case rx_exec capacitancePattern t of
                  Some (g1, g2) \<Rightarrow> a\<lparr>capEstimatedValue := Some (g1 @ g2)\<rparr>
                | None \<Rightarrow> a);
          a2 = (case rx_exec voltagePattern t of
                  Some g1 \<Rightarrow> a1\<lparr>voltage := Some (g1 @ str ''V'')\<rparr>
                | None \<Rightarrow> a1)
      in capacitorLoop ts a2)"

definition analyzeCapacitor :: "TextDetection list \<Rightarrow> CapacitorAnalysis" where
  "analyzeCapacitor textDetections =
     capacitorLoop (lineTexts textDetections) \<lparr>capEstimatedValue = None, voltage = None\<rparr>"

subsection \<open>Integrated circuit\<close>

text \<open>\<^verbatim>\<open>String.prototype.trim\<close>.\<close>

definition trim :: "jsstring \<Rightarrow> jsstring" where
  "trim s = rev (dropWhile is_space (rev (dropWhile is_space s)))"

text \<open>
  \<^verbatim>\<open>String.prototype.toUpperCase\<close>, on the strings that its one call passes: the call is
  guarded by the part-number test, so its argument holds ASCII letters, digits and white
  space only, where the letters a to z go to A to Z and nothing else changes.
\<close>

definition toUpperCase :: "jsstring \<Rightarrow> jsstring" where
  "toUpperCase s = map upper_ascii s"

definition manufacturerPrefixes :: "jsstring list" where
  "manufacturerPrefixes =
     [str ''74'', str ''CD'', str ''LM'', str ''TL'', str ''NE'', str ''MC'', str ''SN'',
      str ''AD'', str ''MAX'']"

text \<open>
  The loop over the text lines. The prefix check is inside the branch of the part-number
  test; the prefix is cut from the line as it is, before trimming.
\<close>

fun icLoop :: "jsstring list \<Rightarrow> ICAnalysis \<Rightarrow> ICAnalysis" where
  "icLoop [] a = a"
| "icLoop (t # ts) a =
     (if partNumberPattern_test (trim t)
      then
        (let a1 = a\<lparr>partNumbers := partNumbers a @ [trim t]\<rparr>;
             pfx = toUpperCase (take 2 t)
         in icLoop ts
              (if pfx \<in> set manufacturerPrefixes
               then a1\<lparr>manufacturers :=
                         manufacturers a1 @ [str ''Likely '' @ pfx @ str '' series'']\<rparr>
               else a1))
      else icLoop ts a)"

definition analyzeIC :: "TextDetection list \<Rightarrow> ICAnalysis" where
  "analyzeIC textDetections =
     icLoop (lineTexts textDetections) \<lparr>partNumbers = [], manufacturers = []\<rparr>"

section \<open>The result assembler\<close>

definition interpretResults :: "Label list \<Rightarrow> TextDetection list \<Rightarrow> ComponentData" where
  "interpretResults labels textDetections =
     (let componentData =
            \<lparr>confidence = 0,
             ctype = str ''unknown'',
             possibleTypes = [],
             detectedLabels = map (\<lambda>l. \<lparr>name = Name l, lconfidence = Confidence l\<rparr>) labels,
             detectedText =
               map (\<lambda>t. \<lparr>text' = DetectedText t, tconfidence = DetConfidence t\<rparr>)
                 (filter (\<lambda>t. Type t = str ''LINE'') textDetections),
             analysis = \<lparr>resistor = None, capacitor = None, ic = None\<rparr>\<rparr>;
          componentTypes = identifyComponentType labels;
          cd = (case componentTypes of
                  [] \<Rightarrow> componentData
                | m # _ \<Rightarrow>
                    componentData\<lparr>ctype := mtype m, confidence := mconfidence m,
                                   possibleTypes := componentTypes\<rparr>)
      in if ctype cd = str ''resistor''
         then cd\<lparr>analysis :=
                   (analysis cd)\<lparr>resistor := Some (analyzeResistor labels textDetections)\<rparr>\<rparr>
         else if ctype cd = str ''capacitor''
         then cd\<lparr>analysis :=
                   (analysis cd)\<lparr>capacitor := Some (analyzeCapacitor textDetections)\<rparr>\<rparr>
         else if ctype cd = str ''integrated_circuit''
         then cd\<lparr>analysis := (analysis cd)\<lparr>ic := Some (analyzeIC textDetections)\<rparr>\<rparr>
         else cd)"

section \<open>The summary renderer\<close>

text \<open>The decimal digits of a natural number.\<close>

fun digits :: "nat \<Rightarrow> jsstring" where
  "digits n = (if n < 10 then [48 + n] else digits (n div 10) @ [48 + n mod 10])"

declare digits.simps [simp del]

text \<open>
  \<^verbatim>\<open>Number.prototype.toFixed(1)\<close>: the integer \<open>n\<close> with \<open>n / 10\<close> nearest to the
  magnitude of the number (the larger one of two) is written with a point before its last
  digit, after a minus sign for a number below zero. (From ten to the power 21 on JavaScript
  changes to exponent notation, far outside the confidences from 0 to 100 of the data
  model; the statements below about the text of a number keep to that range.)
\<close>

definition toFixed1 :: "rat \<Rightarrow> jsstring" where
  "toFixed1 x =
     (let n = nat \<lfloor>\<bar>x\<bar> * 10 + 1 / 2\<rfloor>
      in (if x < 0 then [45] else []) @ digits (n div 10) @ [46] @ digits (n mod 10))"

text \<open>\<^verbatim>\<open>Array.prototype.join\<close> on an array of strings.\<close>

fun join :: "jsstring \<Rightarrow> jsstring list \<Rightarrow> jsstring" where
  "join sep [] = []"
| "join sep [x] = x"
| "join sep (x # y # ys) = x @ sep @ join sep (y # ys)"

text \<open>A string or \<^verbatim>\<open>null\<close> as a condition: \<^verbatim>\<open>null\<close> and the empty string are false.\<close>

fun truthy :: "jsstring option \<Rightarrow> bool" where
  "truthy None = False"
| "truthy (Some s) = (s \<noteq> [])"

text \<open>A string or \<^verbatim>\<open>null\<close> inside a template literal.\<close>

fun template :: "jsstring option \<Rightarrow> jsstring" where
  "template None = str ''null''"
| "template (Some s) = s"

text \<open>The line break \<^verbatim>\<open>\n\<close> is the code unit 10.\<close>

definition generateIdentificationSummary :: "ComponentData \<Rightarrow> jsstring" where
  "generateIdentificationSummary analysisResult =
     (let summary = str ''Identified as: '' @ ctype analysisResult @ str '' (''
                    @ toFixed1 (confidence analysisResult) @ str ''% confidence)''
      in if ctype analysisResult = str ''resistor''
            \<and> resistor (analysis analysisResult) \<noteq> None
         then (case resistor (analysis analysisResult) of
                 None \<Rightarrow> summary
               | Some ra \<Rightarrow>
                   if truthy (estimatedValue ra)
                   then summary @ [10] @ str ''Estimated value: ''
                        @ template (estimatedValue ra)
                   else if hasColorBands ra
                   then summary @ [10] @ str ''Color bands detected: ''
                        @ join (str '', '') (detectedColors ra)
                   else summary)
         else if ctype analysisResult = str ''capacitor''
            \<and> capacitor (analysis analysisResult) \<noteq> None
         then (case capacitor (analysis analysisResult) of
                 None \<Rightarrow> summary
               | Some ca \<Rightarrow>
                   (let summary1 =
                          (if truthy (capEstimatedValue ca)
                           then summary @ [10] @ str ''Estimated value: ''
                                @ template (capEstimatedValue ca)
                           else summary)
                    in if truthy (voltage ca)
                       then summary1 @ [10] @ str ''Rated voltage: '' @ template (voltage ca)
                       else summary1))
         else if ctype analysisResult = str ''integrated_circuit''
            \<and> ic (analysis analysisResult) \<noteq> None
         then (case ic (analysis analysisResult) of
                 None \<Rightarrow> summary
               | Some ia \<Rightarrow>
                   if 0 < length (partNumbers ia)
                   then summary @ [10] @ str ''Detected part numbers: ''
                        @ join (str '', '') (partNumbers ia)
                   else summary)
         else summary)"

section \<open>Notions used in the statements\<close>

text \<open>The ten colour names, as the specification lists them.\<close>

definition colorNames :: "jsstring list" where
  "colorNames =
     [str ''black'', str ''brown'', str ''red'', str ''orange'', str ''yellow'',
      str ''green'', str ''blue'', str ''violet'', str ''grey'', str ''white'']"

definition hasColorName :: "Label \<Rightarrow> bool" where
  "hasColorName l = list_ex (includes_str (toLowerCase (Name l))) colorNames"

text \<open>
  A line is a part number when its trimmed text passes the part-number pattern; it has a
  manufacturer prefix when its first two code units, in upper case, are in the prefix
  list; \<open>advisory\<close> is the note pushed for it.
\<close>

definition isPartNumber :: "jsstring \<Rightarrow> bool" where
  "isPartNumber t = partNumberPattern_test (trim t)"

definition hasManufacturerPrefix :: "jsstring \<Rightarrow> bool" where
  "hasManufacturerPrefix t = (toUpperCase (take 2 t) \<in> set manufacturerPrefixes)"

definition advisory :: "jsstring \<Rightarrow> jsstring" where
  "advisory t = str ''Likely '' @ toUpperCase (take 2 t) @ str '' series''"

text \<open>The first line of a text: what stands before its first line break.\<close>

definition firstLine :: "jsstring \<Rightarrow> jsstring" where
  "firstLine s = takeWhile (\<lambda>c. c \<noteq> 10) s"

definition headline :: "ComponentData \<Rightarrow> jsstring" where
  "headline r =
     str ''Identified as: '' @ ctype r @ str '' ('' @ toFixed1 (confidence r)
     @ str ''% confidence)''"

section \<open>Example inputs\<close>

text \<open>Concrete labels and text detections, used to run the definitions.\<close>

definition exLabels :: "Label list" where
  "exLabels =
     [\<lparr>Name = str ''Chip'', Confidence = 60\<rparr>,
      \<lparr>Name = str ''IC Socket'', Confidence = 99\<rparr>]"

definition exSocket :: "Label list" where
  "exSocket = [\<lparr>Name = str ''IC Socket'', Confidence = 99\<rparr>]"

definition exCapacitorText :: "TextDetection list" where
  "exCapacitorText =
     [\<lparr>DetectedText = str ''10uF'', Type = str ''LINE'', DetConfidence = 98\<rparr>,
      \<lparr>DetectedText = str ''10uF'', Type = str ''WORD'', DetConfidence = 98\<rparr>,
      \<lparr>DetectedText = str ''16V'', Type = str ''LINE'', DetConfidence = 97\<rparr>,
      \<lparr>DetectedText = str ''22uF'', Type = str ''LINE'', DetConfidence = 95\<rparr>]"

definition exResistorLabels :: "Label list" where
  "exResistorLabels =
     [\<lparr>Name = str ''red band'', Confidence = 90\<rparr>,
      \<lparr>Name = str ''brown band'', Confidence = 90\<rparr>]"

definition exResistorText :: "TextDetection list" where
  "exResistorText =
     [\<lparr>DetectedText = str ''100'' @ [937], Type = str ''WORD'', DetConfidence = 91\<rparr>,
      \<lparr>DetectedText = str ''5%'', Type = str ''LINE'', DetConfidence = 90\<rparr>,
      \<lparr>DetectedText = str ''4.7 kohm'', Type = str ''LINE'', DetConfidence = 90\<rparr>,
      \<lparr>DetectedText = str ''1k'' @ [937], Type = str ''LINE'', DetConfidence = 88\<rparr>]"

definition exICText :: "TextDetection list" where
  "exICText =
     [\<lparr>DetectedText = str ''LM358'', Type = str ''LINE'', DetConfidence = 99\<rparr>,
      \<lparr>DetectedText = str ''LM358-N'', Type = str ''LINE'', DetConfidence = 97\<rparr>,
      \<lparr>DetectedText = str ''LM358'', Type = str ''LINE'', DetConfidence = 96\<rparr>,
      \<lparr>DetectedText = str '' ne555 '', Type = str ''LINE'', DetConfidence = 90\<rparr>]"

definition exResistorAnalysis :: ResistorAnalysis where
  "exResistorAnalysis =
     \<lparr>hasColorBands = True,
      detectedColors = [str ''red band'', str ''brown band''],
      estimatedValue = Some (str ''4.7k'' @ [937]),
      note' = Some (str ''Resistor identified with visible color bands'')\<rparr>"

definition exResult :: ComponentData where
  "exResult =
     \<lparr>confidence = 181 / 2, ctype = str ''resistor'', possibleTypes = [],
      detectedLabels = [], detectedText = [],
      analysis = \<lparr>resistor = Some exResistorAnalysis, capacitor = None, ic = None\<rparr>\<rparr>"

section \<open>Evaluation\<close>

text \<open>The equations that run the string functions and the patterns on a concrete input.\<close>

lemmas js_eval = str_def is_digit_def is_space_def upper_ascii_def ci_def is_alnum_def
  is_multiplier_def is_cap_unit_def is_omega_def lower_cu_def toLowerCase_def
  resistancePattern_def capacitancePattern_def voltagePattern_def lineTexts_def
  trim_def toUpperCase_def manufacturerPrefixes_def partNumberPattern_test_def rx_rep_def

text \<open>\<open>rx_upto\<close> with its bound as a numeral.\<close>

lemma rx_upto_eval:
  "rx_upto P n [] = [([], [])]"
  "rx_upto P n (c # s) =
     (if n = 0 then [([], c # s)]
      else (if P c then map (\<lambda>(m, r). (c # m, r)) (rx_upto P (n - 1) s) else [])
           @ [([], c # s)])"
  by (cases n; simp)+

section \<open>Properties of the classifier\<close>

lemma insert_cmp_insort_key:
  "insert_cmp (\<lambda>a b. f b - f a) x ys = insort_key (\<lambda>m. - f m) x ys"
  by (induction ys) simp_all

lemma array_sort_sort_key:
  "array_sort (\<lambda>a b. f b - f a) xs = sort_key (\<lambda>m. - f m) xs"
  by (induction xs) (simp_all add: array_sort_def sort_key_def insert_cmp_insort_key)

lemma scanLabels_find:
  "scanLabels ty keywords labels matches = matches @ typeMatchOf labels (ty, keywords)"
  by (induction labels) (simp_all add: typeMatchOf_def matchesKeywords_def Let_def)

lemma scanTypes_concat:
  "scanTypes entries labels matches = matches @ concat (map (typeMatchOf labels) entries)"
  by (induction entries labels matches rule: scanTypes.induct) (simp_all add: scanLabels_find)

text \<open>The comparator \<^verbatim>\<open>b.confidence - a.confidence\<close> sorts by descending confidence.\<close>

lemma array_sort_descending:
  "sorted_wrt (\<lambda>a b. f b \<le> f a) (array_sort (\<lambda>a b. f b - f a) xs)"
proof -
  have "sorted (map (\<lambda>m. - f m) (sort_key (\<lambda>m. - f m) xs))"
    by (rule sorted_sort_key)
  then show ?thesis
    by (simp add: array_sort_sort_key sorted_map)
qed

text \<open>Elements of equal confidence keep their order.\<close>

lemma array_sort_stable:
  "filter (\<lambda>m. f m = k) (array_sort (\<lambda>a b. f b - f a) xs) = filter (\<lambda>m. f m = k) xs"
proof -
  have "filter (\<lambda>m. - f m = - k) (sort_key (\<lambda>m. - f m) xs)
      = filter (\<lambda>m. - f m = - k) xs"
    by (rule sort_key_stable)
  then show ?thesis by (simp add: array_sort_sort_key)
qed

lemma identifyComponentType_Nil: "identifyComponentType [] = []"
  by (simp add: identifyComponentType_def typeKeywords_def array_sort_def)

lemma identifyComponentType_exLabels:
  "identifyComponentType exLabels =
     [\<lparr>mtype = str ''connector'', mconfidence = 99, matchedLabel = str ''IC Socket''\<rparr>,
      \<lparr>mtype = str ''integrated_circuit'', mconfidence = 60, matchedLabel = str ''Chip''\<rparr>]"
  by (simp add: exLabels_def identifyComponentType_def typeKeywords_def array_sort_def js_eval)

lemma identifyComponentType_exSocket:
  "identifyComponentType exSocket =
     [\<lparr>mtype = str ''integrated_circuit'', mconfidence = 99,
       matchedLabel = str ''IC Socket''\<rparr>,
      \<lparr>mtype = str ''connector'', mconfidence = 99, matchedLabel = str ''IC Socket''\<rparr>]"
  by (simp add: exSocket_def identifyComponentType_def typeKeywords_def array_sort_def js_eval)

text \<open>
  C2: for every label sequence the type classifier equals the reference definition:
  the fixed type list is iterated, each type takes the first label in input order whose
  lower-cased name contains one of its keywords (later labels are not looked at for that
  type, a label may serve several types), and the matches are sorted by descending
  confidence, ties keeping their order. The sort of the reference definition is that
  sort: its result is in descending order of confidence, and for every confidence the
  matches of that confidence stand in it as they stood before.
\<close>

theorem identifyComponentType_refines_spec:
  "identifyComponentType labels = identifyComponentType_spec labels
   \<and> sorted_wrt (\<lambda>a b. mconfidence b \<le> mconfidence a) (identifyComponentType_spec labels)
   \<and> (\<forall>k. filter (\<lambda>m. mconfidence m = k) (identifyComponentType_spec labels)
          = filter (\<lambda>m. mconfidence m = k) (concat (map (typeMatchOf labels) typeKeywords)))"
proof -
  have eq: "identifyComponentType labels = identifyComponentType_spec labels"
    by (simp add: identifyComponentType_def identifyComponentType_spec_def
        array_sort_sort_key scanTypes_concat)
  have "sorted_wrt (\<lambda>a b. mconfidence b \<le> mconfidence a) (identifyComponentType labels)"
    unfolding identifyComponentType_def by (rule array_sort_descending)
  moreover have "filter (\<lambda>m. mconfidence m = k) (identifyComponentType labels)
      = filter (\<lambda>m. mconfidence m = k) (concat (map (typeMatchOf labels) typeKeywords))"
    for k
    unfolding identifyComponentType_def scanTypes_concat
    by (simp add: array_sort_stable)
  ultimately show ?thesis using eq by simp
qed

text \<open>
  Two runs: the label Chip (60) comes first and gives the match of the integrated
  circuit, although the later label IC Socket (99) holds the keyword ic too; and the one
  label IC Socket gives the matches of two types, which tie and keep the table's order.
\<close>

theorem identifyComponentType_refines_spec_witness:
  "identifyComponentType_spec exLabels =
     [\<lparr>mtype = str ''connector'', mconfidence = 99, matchedLabel = str ''IC Socket''\<rparr>,
      \<lparr>mtype = str ''integrated_circuit'', mconfidence = 60, matchedLabel = str ''Chip''\<rparr>]
   \<and> identifyComponentType_spec exSocket =
     [\<lparr>mtype = str ''integrated_circuit'', mconfidence = 99,
       matchedLabel = str ''IC Socket''\<rparr>,
      \<lparr>mtype = str ''connector'', mconfidence = 99, matchedLabel = str ''IC Socket''\<rparr>]"
  using identifyComponentType_refines_spec [of exLabels]
    identifyComponentType_refines_spec [of exSocket]
  by (simp add: identifyComponentType_exLabels identifyComponentType_exSocket)

section \<open>Properties of the result assembler\<close>

lemma interpretResults_possibleTypes:
  "possibleTypes (interpretResults labels ds) = identifyComponentType labels"
  by (simp add: interpretResults_def Let_def split: list.splits)

lemma interpretResults_ctype:
  "ctype (interpretResults labels ds) =
     (case identifyComponentType labels of [] \<Rightarrow> str ''unknown'' | m # _ \<Rightarrow> mtype m)"
  by (simp add: interpretResults_def Let_def split: list.splits)

lemma interpretResults_confidence:
  "confidence (interpretResults labels ds) =
     (case identifyComponentType labels of [] \<Rightarrow> 0 | m # _ \<Rightarrow> mconfidence m)"
  by (simp add: interpretResults_def Let_def split: list.splits)

lemma interpretResults_detectedText:
  "detectedText (interpretResults labels ds) =
     map (\<lambda>t. \<lparr>text' = DetectedText t, tconfidence = DetConfidence t\<rparr>)
       (filter (\<lambda>t. Type t = str ''LINE'') ds)"
  by (simp add: interpretResults_def Let_def split: list.splits)

lemma interpretResults_detectedLabels:
  "detectedLabels (interpretResults labels ds) =
     map (\<lambda>l. \<lparr>name = Name l, lconfidence = Confidence l\<rparr>) labels"
  by (simp add: interpretResults_def Let_def split: list.splits)

text \<open>
  C1: for all labels and text detections the result of \<open>interpretResults\<close> has its
  \<open>possibleTypes\<close> in descending order of confidence; its type and confidence are those
  of the first possible type, or \<open>unknown\<close> and 0 when there is none; and every entry of
  \<open>detectedText\<close> comes from a detection of type \<open>LINE\<close>, one entry per such detection,
  wherever the other detections stand in the input.
\<close>

theorem interpretResults_invariants:
  "sorted_wrt (\<lambda>a b. mconfidence b \<le> mconfidence a)
     (possibleTypes (interpretResults labels ds))
   \<and> (case possibleTypes (interpretResults labels ds) of
         [] \<Rightarrow> ctype (interpretResults labels ds) = str ''unknown''
                \<and> confidence (interpretResults labels ds) = 0
       | m # _ \<Rightarrow> ctype (interpretResults labels ds) = mtype m
                \<and> confidence (interpretResults labels ds) = mconfidence m)
   \<and> (\<forall>e \<in> set (detectedText (interpretResults labels ds)).
         \<exists>t \<in> set ds. Type t = str ''LINE''
            \<and> e = \<lparr>text' = DetectedText t, tconfidence = DetConfidence t\<rparr>)
   \<and> length (detectedText (interpretResults labels ds))
       = length (filter (\<lambda>t. Type t = str ''LINE'') ds)"
proof (intro conjI)
  show "sorted_wrt (\<lambda>a b. mconfidence b \<le> mconfidence a)
     (possibleTypes (interpretResults labels ds))"
    unfolding interpretResults_possibleTypes identifyComponentType_def
    by (rule array_sort_descending)
  show "case possibleTypes (interpretResults labels ds) of
         [] \<Rightarrow> ctype (interpretResults labels ds) = str ''unknown''
                \<and> confidence (interpretResults labels ds) = 0
       | m # _ \<Rightarrow> ctype (interpretResults labels ds) = mtype m
                \<and> confidence (interpretResults labels ds) = mconfidence m"
    by (simp add: interpretResults_possibleTypes interpretResults_ctype
        interpretResults_confidence split: list.splits)
  show "\<forall>e \<in> set (detectedText (interpretResults labels ds)).
         \<exists>t \<in> set ds. Type t = str ''LINE''
            \<and> e = \<lparr>text' = DetectedText t, tconfidence = DetConfidence t\<rparr>"
    by (auto simp add: interpretResults_detectedText)
  show "length (detectedText (interpretResults labels ds))
       = length (filter (\<lambda>t. Type t = str ''LINE'') ds)"
    by (simp add: interpretResults_detectedText)
qed

theorem interpretResults_invariants_witness:
  "sorted_wrt (\<lambda>a b. mconfidence b \<le> mconfidence a)
     (possibleTypes (interpretResults exLabels exCapacitorText))
   \<and> possibleTypes (interpretResults exLabels exCapacitorText) =
     [\<lparr>mtype = str ''connector'', mconfidence = 99, matchedLabel = str ''IC Socket''\<rparr>,
      \<lparr>mtype = str ''integrated_circuit'', mconfidence = 60, matchedLabel = str ''Chip''\<rparr>]
   \<and> ctype (interpretResults exLabels exCapacitorText) = str ''connector''
   \<and> confidence (interpretResults exLabels exCapacitorText) = 99
   \<and> list_all (\<lambda>e. list_ex (\<lambda>t. Type t = str ''LINE''
            \<and> e = \<lparr>text' = DetectedText t, tconfidence = DetConfidence t\<rparr>) exCapacitorText)
        (detectedText (interpretResults exLabels exCapacitorText))
   \<and> length (detectedText (interpretResults exLabels exCapacitorText)) = 3"
  using interpretResults_invariants [of exLabels exCapacitorText]
  by (simp add: interpretResults_possibleTypes identifyComponentType_exLabels
      interpretResults_ctype interpretResults_confidence interpretResults_detectedText
      exCapacitorText_def str_def)

text \<open>
  C8: on empty labels and text detections \<open>interpretResults\<close> returns the fallback
  result: type \<open>unknown\<close>, confidence 0, no possible types, no evidence and no analysis.
\<close>

theorem interpretResults_empty:
  "interpretResults [] [] =
     \<lparr>confidence = 0, ctype = str ''unknown'', possibleTypes = [], detectedLabels = [],
      detectedText = [], analysis = \<lparr>resistor = None, capacitor = None, ic = None\<rparr>\<rparr>"
  by (simp add: interpretResults_def identifyComponentType_Nil str_def)

text \<open>
  C9: \<open>detectedLabels\<close> has one entry per input label, in the input order, with the
  label's name and confidence; \<open>detectedText\<close> has the detections of type \<open>LINE\<close>, in
  their order, with their text and confidence.
\<close>

theorem interpretResults_evidence:
  "detectedLabels (interpretResults labels ds)
     = map (\<lambda>l. \<lparr>name = Name l, lconfidence = Confidence l\<rparr>) labels
   \<and> length (detectedLabels (interpretResults labels ds)) = length labels
   \<and> detectedText (interpretResults labels ds)
     = map (\<lambda>t. \<lparr>text' = DetectedText t, tconfidence = DetConfidence t\<rparr>)
         (filter (\<lambda>t. Type t = str ''LINE'') ds)"
  by (simp add: interpretResults_detectedLabels interpretResults_detectedText)

section \<open>Properties of the capacitor extractor\<close>

lemma capacitorLoop_append:
  "capacitorLoop (xs @ ys) a = capacitorLoop ys (capacitorLoop xs a)"
  by (induction xs arbitrary: a) (simp_all add: Let_def)

lemma capacitorLoop_no_capacitance:
  "\<forall>u \<in> set ts. rx_exec capacitancePattern u = None \<Longrightarrow>
   capEstimatedValue (capacitorLoop ts a) = capEstimatedValue a"
  by (induction ts arbitrary: a) (simp_all add: Let_def split: option.splits)

lemma capacitorLoop_no_voltage:
  "\<forall>u \<in> set ts. rx_exec voltagePattern u = None \<Longrightarrow>
   voltage (capacitorLoop ts a) = voltage a"
  by (induction ts arbitrary: a) (simp_all add: Let_def split: option.splits)

lemma capacitorLoop_last_capacitance:
  assumes "rx_exec capacitancePattern t = Some (g1, g2)"
    and "\<forall>u \<in> set post. rx_exec capacitancePattern u = None"
  shows "capEstimatedValue (capacitorLoop (pre @ t # post) a) = Some (g1 @ g2)"
proof -
  have "capEstimatedValue (capacitorLoop (t # post) b) = Some (g1 @ g2)" for b
    using assms by (simp add: Let_def capacitorLoop_no_capacitance split: option.splits)
  then show ?thesis by (simp only: capacitorLoop_append)
qed

lemma capacitorLoop_last_voltage:
  assumes "rx_exec voltagePattern t = Some g"
    and "\<forall>u \<in> set post. rx_exec voltagePattern u = None"
  shows "voltage (capacitorLoop (pre @ t # post) a) = Some (g @ str ''V'')"
proof -
  have "voltage (capacitorLoop (t # post) b) = Some (g @ str ''V'')" for b
    using assms by (simp add: Let_def capacitorLoop_no_voltage split: option.splits)
  then show ?thesis by (simp only: capacitorLoop_append)
qed

lemma cap_10uF: "rx_exec capacitancePattern (str ''10uF'') = Some (str ''10'', str ''uF'')"
  by (simp add: js_eval)

lemma cap_22uF: "rx_exec capacitancePattern (str ''22uF'') = Some (str ''22'', str ''uF'')"
  by (simp add: js_eval)

lemma cap_16V: "rx_exec capacitancePattern (str ''16V'') = None"
  by (simp add: js_eval)

lemma cap_100F: "rx_exec capacitancePattern (str ''100F'') = Some (str ''100'', str ''F'')"
  by (simp add: js_eval)

lemma volt_10uF: "rx_exec voltagePattern (str ''10uF'') = None"
  by (simp add: js_eval)

lemma volt_22uF: "rx_exec voltagePattern (str ''22uF'') = None"
  by (simp add: js_eval)

lemma volt_16V: "rx_exec voltagePattern (str ''16V'') = Some (str ''16'')"
  by (simp add: js_eval)

lemma volt_100F: "rx_exec voltagePattern (str ''100F'') = None"
  by (simp add: js_eval)

lemma capacitor_example:
  "capacitorLoop [str ''10uF'', str ''16V'', str ''22uF'']
     \<lparr>capEstimatedValue = None, voltage = None\<rparr>
   = \<lparr>capEstimatedValue = Some (str ''22uF''), voltage = Some (str ''16V'')\<rparr>"
  by (simp add: cap_10uF cap_22uF cap_16V volt_10uF volt_22uF volt_16V Let_def)
    (simp add: str_def)

lemma exCapacitorText_lines:
  "lineTexts exCapacitorText = [str ''10uF'', str ''16V'', str ''22uF'']"
  by (simp add: exCapacitorText_def lineTexts_def str_def)

text \<open>
  C4: the capacitor extractor looks at every line, with each of its two patterns on its
  own. The last line that the capacitance pattern matches gives \<open>estimatedValue\<close> (groups
  1 and 2 of the match), the last line that the voltage pattern matches gives \<open>voltage\<close>
  (group 1 and the letter V), and a field without a matching line stays \<open>null\<close>. The
  lines 10uF, 16V, 22uF give the value 22uF and the voltage 16V.
\<close>

theorem analyzeCapacitor_last_match:
  "(lineTexts ds = pre @ t # post
      \<and> rx_exec capacitancePattern t = Some (g1, g2)
      \<and> (\<forall>u \<in> set post. rx_exec capacitancePattern u = None)
      \<longrightarrow> capEstimatedValue (analyzeCapacitor ds) = Some (g1 @ g2))
   \<and> ((\<forall>u \<in> set (lineTexts ds). rx_exec capacitancePattern u = None)
      \<longrightarrow> capEstimatedValue (analyzeCapacitor ds) = None)
   \<and> (lineTexts ds = pre' @ t' # post'
      \<and> rx_exec voltagePattern t' = Some g
      \<and> (\<forall>u \<in> set post'. rx_exec voltagePattern u = None)
      \<longrightarrow> voltage (analyzeCapacitor ds) = Some (g @ str ''V''))
   \<and> ((\<forall>u \<in> set (lineTexts ds). rx_exec voltagePattern u = None)
      \<longrightarrow> voltage (analyzeCapacitor ds) = None)
   \<and> (lineTexts ds = [str ''10uF'', str ''16V'', str ''22uF'']
      \<longrightarrow> analyzeCapacitor ds
          = \<lparr>capEstimatedValue = Some (str ''22uF''), voltage = Some (str ''16V'')\<rparr>)"
proof (intro conjI impI)
  assume "lineTexts ds = pre @ t # post
      \<and> rx_exec capacitancePattern t = Some (g1, g2)
      \<and> (\<forall>u \<in> set post. rx_exec capacitancePattern u = None)"
  then show "capEstimatedValue (analyzeCapacitor ds) = Some (g1 @ g2)"
    by (simp add: analyzeCapacitor_def capacitorLoop_last_capacitance)
next
  assume "\<forall>u \<in> set (lineTexts ds). rx_exec capacitancePattern u = None"
  then show "capEstimatedValue (analyzeCapacitor ds) = None"
    by (simp add: analyzeCapacitor_def capacitorLoop_no_capacitance)
next
  assume "lineTexts ds = pre' @ t' # post'
      \<and> rx_exec voltagePattern t' = Some g
      \<and> (\<forall>u \<in> set post'. rx_exec voltagePattern u = None)"
  then show "voltage (analyzeCapacitor ds) = Some (g @ str ''V'')"
    by (simp add: analyzeCapacitor_def capacitorLoop_last_voltage)
next
  assume "\<forall>u \<in> set (lineTexts ds). rx_exec voltagePattern u = None"
  then show "voltage (analyzeCapacitor ds) = None"
    by (simp add: analyzeCapacitor_def capacitorLoop_no_voltage)
next
  assume "lineTexts ds = [str ''10uF'', str ''16V'', str ''22uF'']"
  then show "analyzeCapacitor ds
          = \<lparr>capEstimatedValue = Some (str ''22uF''), voltage = Some (str ''16V'')\<rparr>"
    by (simp only: analyzeCapacitor_def capacitor_example)
qed

theorem analyzeCapacitor_last_match_witness:
  "lineTexts exCapacitorText = [str ''10uF'', str ''16V''] @ str ''22uF'' # []
   \<and> rx_exec capacitancePattern (str ''22uF'') = Some (str ''22'', str ''uF'')
   \<and> lineTexts exCapacitorText = [str ''10uF''] @ str ''16V'' # [str ''22uF'']
   \<and> rx_exec voltagePattern (str ''16V'') = Some (str ''16'')
   \<and> list_all (\<lambda>u. rx_exec voltagePattern u = None) [str ''22uF'']
   \<and> capEstimatedValue (analyzeCapacitor exCapacitorText) = Some (str ''22'' @ str ''uF'')
   \<and> voltage (analyzeCapacitor exCapacitorText) = Some (str ''16'' @ str ''V'')
   \<and> analyzeCapacitor exCapacitorText
          = \<lparr>capEstimatedValue = Some (str ''22uF''), voltage = Some (str ''16V'')\<rparr>"
  using analyzeCapacitor_last_match [of exCapacitorText "[str ''10uF'', str ''16V'']"
      "str ''22uF''" "[]" "str ''22''" "str ''uF''" "[str ''10uF'']" "str ''16V''"
      "[str ''22uF'']" "str ''16''"]
  by (simp add: exCapacitorText_lines cap_22uF volt_16V volt_22uF) (simp add: str_def)

text \<open>
  C10: the unit letter before F is optional in the capacitance pattern: the line 100F
  matches with the groups 100 and F, and sets \<open>estimatedValue\<close> to 100F.
\<close>

theorem analyzeCapacitor_unit_prefix_optional:
  "rx_exec capacitancePattern (str ''100F'') = Some (str ''100'', str ''F'')
   \<and> capEstimatedValue
       (analyzeCapacitor
          [\<lparr>DetectedText = str ''100F'', Type = str ''LINE'', DetConfidence = c\<rparr>])
     = Some (str ''100F'')"
  by (simp add: analyzeCapacitor_def lineTexts_def cap_100F volt_100F) (simp add: str_def)

section \<open>Properties of the resistor extractor\<close>

lemma resistorLoop_bands:
  "hasColorBands (resistorLoop ts a) = hasColorBands a
   \<and> detectedColors (resistorLoop ts a) = detectedColors a
   \<and> note' (resistorLoop ts a) = note' a"
  by (induction ts) (simp_all split: option.splits)

lemma resistorLoop_no_match:
  "\<forall>u \<in> set ts. rx_exec resistancePattern u = None \<Longrightarrow> resistorLoop ts a = a"
  by (induction ts) simp_all

lemma resistorLoop_first_match:
  assumes "\<forall>u \<in> set pre. rx_exec resistancePattern u = None"
    and "rx_exec resistancePattern t = Some (g1, g2, g3)"
  shows "estimatedValue (resistorLoop (pre @ t # post) a) = Some (g1 @ g2 @ [937])"
  using assms by (induction pre) simp_all

lemma res_100:
  "rx_exec resistancePattern (str ''100'' @ [937]) = Some (str ''100'', [], [937])"
  by (simp add: js_eval)

lemma res_1k:
  "rx_exec resistancePattern (str ''1k'' @ [937]) = Some (str ''1'', str ''k'', [937])"
  by (simp add: js_eval)

lemma res_5pct: "rx_exec resistancePattern (str ''5%'') = None"
  by (simp add: js_eval)

lemma res_47kohm:
  "rx_exec resistancePattern (str ''4.7 kohm'') = Some (str ''4.7'', str ''k'', str ''ohm'')"
  by (simp add: js_eval)

lemma exResistorText_lines:
  "lineTexts exResistorText = [str ''5%''] @ str ''4.7 kohm'' # [str ''1k'' @ [937]]"
  by (simp add: exResistorText_def lineTexts_def str_def)

text \<open>
  C5: the resistor extractor takes the first line (of the \<open>LINE\<close> detections, in
  order) that the resistance pattern matches, and stores group 1 (the number), group 2
  (the multiplier) and the ohm sign U+03A9; lines after it are not looked at, and with no
  matching line the value stays \<open>null\<close>. The lines 100\<Omega>, 1k\<Omega> give the value 100\<Omega>.
\<close>

theorem analyzeResistor_first_match:
  "(lineTexts ds = pre @ t # post
      \<and> (\<forall>u \<in> set pre. rx_exec resistancePattern u = None)
      \<and> rx_exec resistancePattern t = Some (g1, g2, g3)
      \<longrightarrow> estimatedValue (analyzeResistor labels ds) = Some (g1 @ g2 @ [937]))
   \<and> ((\<forall>u \<in> set (lineTexts ds). rx_exec resistancePattern u = None)
      \<longrightarrow> estimatedValue (analyzeResistor labels ds) = None)
   \<and> (lineTexts ds = [str ''100'' @ [937], str ''1k'' @ [937]]
      \<longrightarrow> estimatedValue (analyzeResistor labels ds) = Some (str ''100'' @ [937]))"
proof (intro conjI impI)
  assume "lineTexts ds = pre @ t # post
      \<and> (\<forall>u \<in> set pre. rx_exec resistancePattern u = None)
      \<and> rx_exec resistancePattern t = Some (g1, g2, g3)"
  then show "estimatedValue (analyzeResistor labels ds) = Some (g1 @ g2 @ [937])"
    by (simp add: analyzeResistor_def Let_def resistorLoop_first_match)
next
  assume "\<forall>u \<in> set (lineTexts ds). rx_exec resistancePattern u = None"
  then show "estimatedValue (analyzeResistor labels ds) = None"
    by (simp add: analyzeResistor_def Let_def resistorLoop_no_match)
next
  assume "lineTexts ds = [str ''100'' @ [937], str ''1k'' @ [937]]"
  then show "estimatedValue (analyzeResistor labels ds) = Some (str ''100'' @ [937])"
    by (simp add: analyzeResistor_def Let_def res_100)
qed

theorem analyzeResistor_first_match_witness:
  "lineTexts exResistorText = [str ''5%''] @ str ''4.7 kohm'' # [str ''1k'' @ [937]]
   \<and> list_all (\<lambda>u. rx_exec resistancePattern u = None) [str ''5%'']
   \<and> rx_exec resistancePattern (str ''4.7 kohm'') = Some (str ''4.7'', str ''k'', str ''ohm'')
   \<and> rx_exec resistancePattern (str ''1k'' @ [937]) = Some (str ''1'', str ''k'', [937])
   \<and> estimatedValue (analyzeResistor exResistorLabels exResistorText)
       = Some (str ''4.7'' @ str ''k'' @ [937])"
  using analyzeResistor_first_match [of exResistorText "[str ''5%'']" "str ''4.7 kohm''"
      "[str ''1k'' @ [937]]" "str ''4.7''" "str ''k''" "str ''ohm''" exResistorLabels]
  by (simp add: exResistorText_lines res_5pct res_47kohm res_1k)

lemma color_keys: "map toLowerCase (map fst ResistorColorCodes) = colorNames"
  by (simp add: ResistorColorCodes_def colorNames_def js_eval)

lemma isColorLabel_hasColorName: "isColorLabel l = hasColorName l"
  unfolding isColorLabel_def hasColorName_def color_keys [symmetric]
  by (simp add: list_ex_iff)

lemma exResistorLabels_colors: "filter isColorLabel exResistorLabels = exResistorLabels"
  by (simp add: exResistorLabels_def isColorLabel_def ResistorColorCodes_def js_eval)

text \<open>
  C6: \<open>hasColorBands\<close> is true exactly when at least two labels have a lower-cased name
  that contains one of the ten colour names; then \<open>detectedColors\<close> holds the names of
  those labels as they came, and the note is set; otherwise both keep their defaults.
  The labels red band and brown band give \<open>hasColorBands\<close> and both names.
\<close>

theorem analyzeResistor_color_bands:
  "hasColorBands (analyzeResistor labels ds) = (2 \<le> length (filter hasColorName labels))
   \<and> (if 2 \<le> length (filter hasColorName labels)
       then detectedColors (analyzeResistor labels ds) = map Name (filter hasColorName labels)
            \<and> note' (analyzeResistor labels ds)
              = Some (str ''Resistor identified with visible color bands'')
       else detectedColors (analyzeResistor labels ds) = []
            \<and> note' (analyzeResistor labels ds) = None)
   \<and> hasColorBands (analyzeResistor exResistorLabels ds)
   \<and> detectedColors (analyzeResistor exResistorLabels ds)
       = [str ''red band'', str ''brown band'']"
proof -
  have "isColorLabel = hasColorName"
    by (rule ext) (rule isColorLabel_hasColorName)
  then have eq: "filter isColorLabel ls = filter hasColorName ls" for ls
    by simp
  have ex: "filter hasColorName exResistorLabels = exResistorLabels"
    using exResistorLabels_colors by (simp add: eq)
  show ?thesis
    by (simp add: analyzeResistor_def Let_def resistorLoop_bands eq ex)
      (simp add: exResistorLabels_def)
qed

section \<open>Properties of the integrated-circuit extractor\<close>

lemma icLoop_partNumbers:
  "partNumbers (icLoop ts a) = partNumbers a @ map trim (filter isPartNumber ts)"
  by (induction ts arbitrary: a) (simp_all add: Let_def isPartNumber_def)

lemma icLoop_manufacturers:
  "manufacturers (icLoop ts a) =
     manufacturers a
     @ map advisory (filter (\<lambda>t. isPartNumber t \<and> hasManufacturerPrefix t) ts)"
  by (induction ts arbitrary: a)
    (simp_all add: Let_def isPartNumber_def hasManufacturerPrefix_def advisory_def)

lemma ic_LM358: "isPartNumber (str ''LM358'')" "hasManufacturerPrefix (str ''LM358'')"
  by (simp_all add: isPartNumber_def hasManufacturerPrefix_def js_eval rx_upto_eval)

lemma ic_LM358N: "\<not> isPartNumber (str ''LM358-N'')" "hasManufacturerPrefix (str ''LM358-N'')"
  by (simp_all add: isPartNumber_def hasManufacturerPrefix_def js_eval rx_upto_eval)

lemma ic_ne555:
  "isPartNumber (str '' ne555 '')" "\<not> hasManufacturerPrefix (str '' ne555 '')"
  "trim (str '' ne555 '') = str ''ne555''"
  by (simp_all add: isPartNumber_def hasManufacturerPrefix_def js_eval rx_upto_eval)

lemma trim_LM358:
  "trim (str ''LM358'') = str ''LM358''"
  "advisory (str ''LM358'') = str ''Likely LM series''"
  by (simp_all add: js_eval advisory_def)

lemma exICText_lines:
  "lineTexts exICText = [str ''LM358'', str ''LM358-N'', str ''LM358'', str '' ne555 '']"
  by (simp add: exICText_def lineTexts_def)

text \<open>
  C3 as the code has it: the prefix check runs inside the part-number branch. The part
  numbers are the trimmed texts of the lines that pass the part-number pattern; the
  manufacturer notes are one note for each of those lines whose first two code units
  (of the line before trimming), in upper case, are in the prefix list. Both lists keep
  the order of the lines and their duplicates; a line that fails the part-number pattern
  adds to neither.
\<close>

theorem analyzeIC_prefix_check_nested:
  "partNumbers (analyzeIC ds) = map trim (filter isPartNumber (lineTexts ds))
   \<and> manufacturers (analyzeIC ds) =
       map advisory
         (filter (\<lambda>t. isPartNumber t \<and> hasManufacturerPrefix t) (lineTexts ds))"
  by (simp add: analyzeIC_def icLoop_partNumbers icLoop_manufacturers)

theorem analyzeIC_prefix_check_nested_witness:
  "analyzeIC exICText =
     \<lparr>partNumbers = [str ''LM358'', str ''LM358'', str ''ne555''],
      manufacturers = [str ''Likely LM series'', str ''Likely LM series'']\<rparr>"
proof -
  have "partNumbers (analyzeIC exICText) = [str ''LM358'', str ''LM358'', str ''ne555'']
    \<and> manufacturers (analyzeIC exICText)
        = [str ''Likely LM series'', str ''Likely LM series'']"
    using analyzeIC_prefix_check_nested [of exICText]
    by (simp add: exICText_lines ic_LM358 ic_LM358N ic_ne555 trim_LM358)
  then show ?thesis by (cases "analyzeIC exICText") simp
qed

text \<open>
  C3 as the specification states it fails: the line LM358-N starts with the listed prefix
  LM and fails the part-number pattern, and the extractor pushes no manufacturer note.
\<close>

theorem analyzeIC_independent_prefix_counterexample:
  "toUpperCase (take 2 (str ''LM358-N'')) \<in> set manufacturerPrefixes
   \<and> \<not> partNumberPattern_test (trim (str ''LM358-N''))
   \<and> manufacturers
       (analyzeIC [\<lparr>DetectedText = str ''LM358-N'', Type = str ''LINE'', DetConfidence = 97\<rparr>])
     = []"
  using ic_LM358N
  by (simp add: analyzeIC_def lineTexts_def isPartNumber_def hasManufacturerPrefix_def)

section \<open>Properties of the summary renderer\<close>

lemma digits_are_digits: "c \<in> set (digits n) \<Longrightarrow> 48 \<le> c \<and> c \<le> 57"
proof (induction n rule: digits.induct)
  case (1 n)
  show ?case
  proof (cases "n < 10")
    case True
    with "1.prems" show ?thesis by (simp add: digits.simps)
  next
    case False
    with "1.prems" have "c \<in> set (digits (n div 10)) \<or> c = 48 + n mod 10"
      by (subst (asm) digits.simps) auto
    moreover have "n mod 10 < 10" by simp
    ultimately show ?thesis using False "1.IH" by fastforce
  qed
qed

lemma toFixed1_one_line: "10 \<notin> set (toFixed1 x)"
  using digits_are_digits [of 10] by (auto simp add: toFixed1_def Let_def)

text \<open>
  The text of a number from 0 on: the decimal digits of the nearest tenth, with a point
  before the last digit.
\<close>

lemma toFixed1_nearest_tenth:
  assumes "0 \<le> x"
  shows "\<exists>n. toFixed1 x = digits (n div 10) @ [46, 48 + n mod 10]
           \<and> \<bar>x - of_nat n / 10\<bar> \<le> 1 / 20"
proof -
  define k where "k = \<lfloor>x * 10 + 1 / 2\<rfloor>"
  define n where "n = nat k"
  have k0: "0 \<le> k" using assms by (simp add: k_def)
  then have nk: "(of_nat n :: rat) = of_int k" by (simp add: n_def)
  have "of_int k \<le> x * 10 + 1 / 2" "x * 10 + 1 / 2 < of_int k + 1"
    unfolding k_def by linarith+
  then have near: "\<bar>x - of_nat n / 10\<bar> \<le> 1 / 20"
    unfolding nk by linarith
  have "n mod 10 < 10" by simp
  then have d: "digits (n mod 10) = [48 + n mod 10]"
    by (subst digits.simps) simp
  have "toFixed1 x = digits (n div 10) @ [46, 48 + n mod 10]"
    using assms by (simp add: toFixed1_def Let_def n_def k_def d [unfolded n_def k_def])
  with near show ?thesis by blast
qed

lemma toFixed1_zero: "toFixed1 0 = str ''0.0''"
  by (simp add: toFixed1_def digits.simps str_def)

lemma toFixed1_exResult: "toFixed1 (181 / 2) = str ''90.5''"
proof -
  have "\<lfloor>\<bar>181 / 2 :: rat\<bar> * 10 + 1 / 2\<rfloor> = 905"
    by (rule floor_unique) simp_all
  then show ?thesis
    by (simp add: toFixed1_def digits.simps str_def)
qed

lemma firstLine_append: "10 \<notin> set xs \<Longrightarrow> firstLine (xs @ 10 # ys) = xs"
  by (induction xs) (simp_all add: firstLine_def)

lemma firstLine_whole: "10 \<notin> set xs \<Longrightarrow> firstLine xs = xs"
  by (induction xs) (simp_all add: firstLine_def)

lemma headline_one_line: "10 \<notin> set (ctype r) \<Longrightarrow> 10 \<notin> set (headline r)"
  using toFixed1_one_line [of "confidence r"] by (simp add: headline_def) (simp add: str_def)

lemma summary_shape:
  "generateIdentificationSummary r = headline r
   \<or> (\<exists>rest. generateIdentificationSummary r = headline r @ 10 # rest)"
  by (simp add: generateIdentificationSummary_def headline_def Let_def split: option.splits)

text \<open>The type names of the classifier and \<open>unknown\<close> hold no line break.\<close>

lemma canonical_types_one_line:
  "ty \<in> set (str ''unknown'' # map fst typeKeywords) \<Longrightarrow> 10 \<notin> set ty"
  by (auto simp add: typeKeywords_def str_def)

text \<open>
  C7: for a result whose type holds no line break (as every type name of the classifier
  and \<open>unknown\<close>) and whose confidence is between 0 and 100, the first line of the
  summary is \<open>Identified as: <type> (<confidence>% confidence)\<close>, the confidence written
  by \<open>toFixed(1)\<close>, that is as the nearest tenth with one digit after the point. For a
  resistor result with a resistor analysis the summary is that line and then the value
  line if there is a value, else the colour line if there are colour bands, else nothing:
  never both lines. For type \<open>unknown\<close> and confidence 0 the summary is the one line
  \<open>Identified as: unknown (0.0% confidence)\<close>.
\<close>

theorem generateIdentificationSummary_lines:
  "(10 \<notin> set (ctype r) \<and> 0 \<le> confidence r \<and> confidence r \<le> 100
      \<longrightarrow> firstLine (generateIdentificationSummary r)
          = str ''Identified as: '' @ ctype r @ str '' ('' @ toFixed1 (confidence r)
            @ str ''% confidence)''
        \<and> (\<exists>n. toFixed1 (confidence r) = digits (n div 10) @ [46, 48 + n mod 10]
               \<and> \<bar>confidence r - of_nat n / 10\<bar> \<le> 1 / 20))
   \<and> (ctype r = str ''resistor'' \<and> resistor (analysis r) = Some ra
      \<longrightarrow> generateIdentificationSummary r
          = str ''Identified as: '' @ ctype r @ str '' ('' @ toFixed1 (confidence r)
            @ str ''% confidence)''
            @ (if truthy (estimatedValue ra)
               then [10] @ str ''Estimated value: '' @ template (estimatedValue ra)
               else if hasColorBands ra
               then [10] @ str ''Color bands detected: ''
                    @ join (str '', '') (detectedColors ra)
               else []))
   \<and> (ctype r = str ''unknown'' \<and> confidence r = 0
      \<longrightarrow> generateIdentificationSummary r = str ''Identified as: unknown (0.0% confidence)'')"
proof (intro conjI impI)
  assume a: "10 \<notin> set (ctype r) \<and> 0 \<le> confidence r \<and> confidence r \<le> 100"
  then have "10 \<notin> set (headline r)" by (simp add: headline_one_line)
  then have "firstLine (generateIdentificationSummary r) = headline r"
    using summary_shape [of r] by (auto simp add: firstLine_append firstLine_whole)
  then show "firstLine (generateIdentificationSummary r)
          = str ''Identified as: '' @ ctype r @ str '' ('' @ toFixed1 (confidence r)
            @ str ''% confidence)''"
    by (simp add: headline_def)
  from a have "0 \<le> confidence r" by blast
  then show "\<exists>n. toFixed1 (confidence r) = digits (n div 10) @ [46, 48 + n mod 10]
               \<and> \<bar>confidence r - of_nat n / 10\<bar> \<le> 1 / 20"
    by (rule toFixed1_nearest_tenth)
next
  assume "ctype r = str ''resistor'' \<and> resistor (analysis r) = Some ra"
  then show "generateIdentificationSummary r
          = str ''Identified as: '' @ ctype r @ str '' ('' @ toFixed1 (confidence r)
            @ str ''% confidence)''
            @ (if truthy (estimatedValue ra)
               then [10] @ str ''Estimated value: '' @ template (estimatedValue ra)
               else if hasColorBands ra
               then [10] @ str ''Color bands detected: ''
                    @ join (str '', '') (detectedColors ra)
               else [])"
    by (simp add: generateIdentificationSummary_def Let_def)
next
  assume "ctype r = str ''unknown'' \<and> confidence r = 0"
  then show "generateIdentificationSummary r = str ''Identified as: unknown (0.0% confidence)''"
    by (simp add: generateIdentificationSummary_def Let_def toFixed1_zero) (simp add: str_def)
qed

theorem generateIdentificationSummary_lines_witness:
  "10 \<notin> set (ctype exResult) \<and> 0 \<le> confidence exResult \<and> confidence exResult \<le> 100
   \<and> firstLine (generateIdentificationSummary exResult)
       = str ''Identified as: resistor (90.5% confidence)''
   \<and> generateIdentificationSummary exResult
       = str ''Identified as: resistor (90.5% confidence)'' @ [10]
         @ str ''Estimated value: 4.7k'' @ [937]
   \<and> generateIdentificationSummary (interpretResults [] [])
       = str ''Identified as: unknown (0.0% confidence)''"
proof -
  have r: "resistor (analysis exResult) = Some exResistorAnalysis"
    by (simp add: exResult_def)
  have t: "ctype exResult = str ''resistor''" "confidence exResult = 181 / 2"
    by (simp_all add: exResult_def)
  have e: "ctype (interpretResults [] []) = str ''unknown''"
    "confidence (interpretResults [] []) = 0"
    by (simp_all add: interpretResults_ctype interpretResults_confidence
        identifyComponentType_Nil)
  have a: "firstLine (generateIdentificationSummary exResult)
       = str ''Identified as: resistor (90.5% confidence)''
   \<and> generateIdentificationSummary exResult
       = str ''Identified as: resistor (90.5% confidence)'' @ [10]
         @ str ''Estimated value: 4.7k'' @ [937]"
    using generateIdentificationSummary_lines [of exResult exResistorAnalysis]
    by (simp add: t r toFixed1_exResult exResistorAnalysis_def)
      (simp add: str_def firstLine_def)
  have b: "generateIdentificationSummary (interpretResults [] [])
       = str ''Identified as: unknown (0.0% confidence)''"
    using generateIdentificationSummary_lines [of "interpretResults [] []"] e
    by simp
  have c: "10 \<notin> set (ctype exResult) \<and> 0 \<le> confidence exResult
      \<and> confidence exResult \<le> 100"
    by (simp add: t) (simp add: str_def)
  from a b c show ?thesis
    by blast
qed

end
